theory Spec2Isabelle
  imports Complex_Main "HOL-Library.Word"
begin

unbundle bit_operations_syntax

section \<open>audio-grab: capture, gain, and the streaming WAV encoder\<close>

text \<open>
  The repository holds two variants of one recorder.  \<^verbatim>\<open>main.go\<close> is the streaming
  encoder: it writes a 44-byte WAV header, appends 16-bit samples block by block and
  finally patches the two size fields of the header.  The second variant (the file whose
  name is unknown, called the \<^emph>\<open>beep variant\<close> below) converts every sample to
  \<^verbatim>\<open>float64\<close>, applies the gain with clamping, and hands a streamer over the collected
  samples to an external WAV encoder.

  Conventions of the embedding:
  \<^item> \<^verbatim>\<open>uint16\<close>, \<^verbatim>\<open>uint32\<close>, \<^verbatim>\<open>int16\<close> are words of that width (\<open>sint\<close> reads an
    \<^verbatim>\<open>int16\<close>); Go's \<^verbatim>\<open>int\<close> is \<open>int\<close> (the values that occur stay far below 64 bits)
    and its conversions to narrower types are \<open>word_of_int\<close>, which keeps the low bits;
  \<^item> \<^verbatim>\<open>float64\<close> is idealised as \<open>real\<close>: rounding is not modelled.  Every concrete
    evaluation below involves only values that \<^verbatim>\<open>float64\<close> represents exactly;
  \<^item> a Go \<^verbatim>\<open>error\<close> return, a \<^verbatim>\<open>log.Fatal\<close> and a run-time panic are \<open>Inl\<close> of a
    result of type \<open>go_error + 'a\<close>;
  \<^item> the package-level constants (\<^verbatim>\<open>framesPerBuf\<close>, \<^verbatim>\<open>channels\<close>, \<^verbatim>\<open>volume\<close>,
    \<^verbatim>\<open>bitsPerSample\<close>) and the variable \<^verbatim>\<open>possibleSampleRates\<close> are parameters of the
    functions that read them, collected in the record \<open>config\<close>; the values the two
    files give them are \<open>main_go_config\<close> and \<open>beep_config\<close>.
\<close>

subsection \<open>Errors\<close>

datatype go_error =
    ErrInvalid              \<comment> \<open>\<^verbatim>\<open>os.ErrInvalid\<close>\<close>
  | ErrIO                   \<comment> \<open>a failed \<^verbatim>\<open>Write\<close> or \<^verbatim>\<open>Seek\<close> on the output file\<close>
  | ErrDevice               \<comment> \<open>a failed \<^verbatim>\<open>stream.Read\<close>\<close>
  | PanicIndexOutOfRange    \<comment> \<open>run-time panic: slice index out of range\<close>
  | PanicDivideByZero       \<comment> \<open>run-time panic: integer divide by zero\<close>

definition andThen :: "go_error + 'a \<Rightarrow> ('a \<Rightarrow> go_error + 'b) \<Rightarrow> go_error + 'b" where
  "andThen r k = (case r of Inl e \<Rightarrow> Inl e | Inr x \<Rightarrow> k x)"

subsection \<open>Bytes and little-endian encoding (\<^verbatim>\<open>encoding/binary\<close>)\<close>

type_synonym byte = "8 word"
type_synonym uint16 = "16 word"
type_synonym uint32 = "32 word"
type_synonym int16 = "16 word"

definition le16 :: "16 word \<Rightarrow> byte list" where
  "le16 v = [ucast v, ucast (drop_bit 8 v)]"

definition le32 :: "32 word \<Rightarrow> byte list" where
  "le32 v = [ucast v, ucast (drop_bit 8 v), ucast (drop_bit 16 v), ucast (drop_bit 24 v)]"

definition ascii :: "string \<Rightarrow> byte list" where
  "ascii s = map (\<lambda>c. of_char c) s"

subsection \<open>The output file (\<^verbatim>\<open>*os.File\<close>)\<close>

text \<open>
  A file is its bytes and the current offset.  \<open>budget\<close> is the number of further
  system calls the operating system will carry out; a call made with no budget left
  fails, which is how a full disk or a closed descriptor shows up at some point of a
  session.  \<open>trace\<close> records every call that succeeded, in order.
\<close>

datatype sysop = OpSeek nat | OpWrite "byte list"

record os_file =
  content :: "byte list"
  offset :: nat
  budget :: nat
  trace :: "sysop list"

text \<open>\<^verbatim>\<open>os.Create\<close>: an empty file, positioned at its start.\<close>

definition os_Create :: "nat \<Rightarrow> os_file" where
  "os_Create b = \<lparr>content = [], offset = 0, budget = b, trace = []\<rparr>"

text \<open>
  Writing \<open>bs\<close> at offset \<open>off\<close>: bytes already there are overwritten, the file grows
  where the data reaches past its end, and a gap between the old end and \<open>off\<close> reads
  as zeros.
\<close>

definition put_bytes :: "byte list \<Rightarrow> nat \<Rightarrow> byte list \<Rightarrow> byte list" where
  "put_bytes xs off bs =
     take off xs @ replicate (off - length xs) 0 @ bs @ drop (off + length bs) xs"

definition file_Write :: "os_file \<Rightarrow> byte list \<Rightarrow> go_error + os_file" where
  "file_Write w bs =
     (if budget w = 0 then Inl ErrIO
      else Inr (w\<lparr>content := put_bytes (content w) (offset w) bs,
                  offset := offset w + length bs,
                  budget := budget w - 1,
                  trace := trace w @ [OpWrite bs]\<rparr>))"

text \<open>\<^verbatim>\<open>w.Seek(off, 0)\<close>: the only whence the program uses is 0, the start of the file.\<close>

definition file_Seek :: "os_file \<Rightarrow> nat \<Rightarrow> go_error + os_file" where
  "file_Seek w off =
     (if budget w = 0 then Inl ErrIO
      else Inr (w\<lparr>offset := off, budget := budget w - 1, trace := trace w @ [OpSeek off]\<rparr>))"

text \<open>\<^verbatim>\<open>binary.Write(w, binary.LittleEndian, v)\<close> for the two widths the program writes.\<close>

definition binary_Write16 :: "os_file \<Rightarrow> 16 word \<Rightarrow> go_error + os_file" where
  "binary_Write16 w v = file_Write w (le16 v)"

definition binary_Write32 :: "os_file \<Rightarrow> 32 word \<Rightarrow> go_error + os_file" where
  "binary_Write32 w v = file_Write w (le32 v)"

subsection \<open>\<^verbatim>\<open>writeWavHeader\<close> and \<^verbatim>\<open>updateWavHeader\<close> (main.go)\<close>

definition writeWavHeader :: "os_file \<Rightarrow> uint32 \<Rightarrow> uint16 \<Rightarrow> int \<Rightarrow> uint32 \<Rightarrow> go_error + os_file" where
  "writeWavHeader w sampleRate numChannels bitsPerSample dataSize =
     (let blockAlign = numChannels * (word_of_int bitsPerSample :: uint16) div 8;
          byteRate = sampleRate * (ucast blockAlign :: uint32)
      in
      andThen (file_Write w (ascii ''RIFF'')) (\<lambda>w.
      andThen (binary_Write32 w (36 + dataSize)) (\<lambda>w.
      andThen (file_Write w (ascii ''WAVE'')) (\<lambda>w.
      andThen (file_Write w (ascii ''fmt '')) (\<lambda>w.
      andThen (binary_Write32 w 16) (\<lambda>w.
      andThen (binary_Write16 w 1) (\<lambda>w.
      andThen (binary_Write16 w numChannels) (\<lambda>w.
      andThen (binary_Write32 w sampleRate) (\<lambda>w.
      andThen (binary_Write32 w byteRate) (\<lambda>w.
      andThen (binary_Write16 w blockAlign) (\<lambda>w.
      andThen (binary_Write16 w (word_of_int bitsPerSample)) (\<lambda>w.
      andThen (file_Write w (ascii ''data'')) (\<lambda>w.
      binary_Write32 w dataSize)))))))))))))"

definition updateWavHeader :: "os_file \<Rightarrow> int \<Rightarrow> go_error + os_file" where
  "updateWavHeader w dataSize =
     andThen (file_Seek w 4) (\<lambda>w.
     andThen (binary_Write32 w (word_of_int (36 + dataSize))) (\<lambda>w.
     andThen (file_Seek w 40) (\<lambda>w.
     binary_Write32 w (word_of_int dataSize))))"

subsection \<open>Configuration: the package-level constants\<close>

record config =
  framesPerBuf :: nat
  channels :: nat
  volume :: real
  bitsPerSample :: int
  possibleSampleRates :: "real list"

text \<open>
  \<^verbatim>\<open>channels\<close> is a natural number: the program converts the constant with
  \<^verbatim>\<open>uint16(channels)\<close> and sizes a buffer with it, and the compiler rejects both for a
  negative constant.
\<close>

definition main_go_config :: config where
  "main_go_config =
     \<lparr>framesPerBuf = 512, channels = 1, volume = 1, bitsPerSample = 16,
      possibleSampleRates = [44100, 48000, 16000, 32000]\<rparr>"

text \<open>
  The beep variant has no \<^verbatim>\<open>bitsPerSample\<close> constant; it asks the external encoder for
  a precision of 2 bytes, recorded here as 16 bits.
\<close>

definition beep_config :: config where
  "beep_config =
     \<lparr>framesPerBuf = 512, channels = 1, volume = 2, bitsPerSample = 16,
      possibleSampleRates = [44100, 48000, 96000, 16000, 32000, 22050]\<rparr>"

subsection \<open>\<^verbatim>\<open>findWorkingSampleRate\<close> (both variants)\<close>

record DeviceInfo =
  Name :: string
  MaxInputChannels :: int
  DefaultLowInputLatency :: int  \<comment> \<open>a \<^verbatim>\<open>time.Duration\<close>, in nanoseconds\<close>

record StreamDeviceParameters =
  Device :: "DeviceInfo option"  \<comment> \<open>a pointer; \<open>None\<close> is \<^verbatim>\<open>nil\<close>\<close>
  Channels :: int
  Latency :: int

record StreamParameters =
  Input :: StreamDeviceParameters
  Output :: StreamDeviceParameters
  SampleRate :: real
  FramesPerBuffer :: int

text \<open>
  The parameters probed for one candidate rate.  main.go leaves \<^verbatim>\<open>Output\<close> at its zero
  value; the beep variant writes \<^verbatim>\<open>Output: {Channels: 0}\<close>, which is the same value.
\<close>

definition probeParams :: "config \<Rightarrow> DeviceInfo \<Rightarrow> real \<Rightarrow> StreamParameters" where
  "probeParams cfg dev rate =
     \<lparr>Input = \<lparr>Device = Some dev, Channels = int (channels cfg),
                Latency = DefaultLowInputLatency dev\<rparr>,
      Output = \<lparr>Device = None, Channels = 0, Latency = 0\<rparr>,
      SampleRate = rate,
      FramesPerBuffer = int (framesPerBuf cfg)\<rparr>"

text \<open>
  \<^verbatim>\<open>portaudio.IsFormatSupported\<close> belongs to the device library: it is the parameter
  \<open>isFormatSupported\<close>, whose result \<open>None\<close> is the \<^verbatim>\<open>nil\<close> error.  The function
  returns Go's pair of a rate and an error.
\<close>

fun rateLoop ::
  "(StreamParameters \<Rightarrow> go_error option) \<Rightarrow> config \<Rightarrow> DeviceInfo \<Rightarrow> real list
     \<Rightarrow> real \<times> go_error option" where
  "rateLoop isFormatSupported cfg dev [] = (0, Some ErrInvalid)"
| "rateLoop isFormatSupported cfg dev (rate # rest) =
     (if isFormatSupported (probeParams cfg dev rate) = None then (rate, None)
      else rateLoop isFormatSupported cfg dev rest)"

definition findWorkingSampleRate ::
  "(StreamParameters \<Rightarrow> go_error option) \<Rightarrow> config \<Rightarrow> DeviceInfo \<Rightarrow> real \<times> go_error option" where
  "findWorkingSampleRate isFormatSupported cfg dev =
     rateLoop isFormatSupported cfg dev (possibleSampleRates cfg)"

text \<open>The device accepts the candidate: the probe returns no error.\<close>

definition supports ::
  "(StreamParameters \<Rightarrow> go_error option) \<Rightarrow> config \<Rightarrow> DeviceInfo \<Rightarrow> real \<Rightarrow> bool" where
  "supports isFormatSupported cfg dev rate =
     (isFormatSupported (probeParams cfg dev rate) = None)"

subsection \<open>Gain in the streaming encoder: \<^verbatim>\<open>writeSample\<close> (main.go)\<close>

definition truncate_real :: "real \<Rightarrow> int" where
  "truncate_real x = (if 0 \<le> x then \<lfloor>x\<rfloor> else \<lceil>x\<rceil>)"

text \<open>
  \<^verbatim>\<open>int16(x)\<close> for a \<^verbatim>\<open>float64\<close> \<open>x\<close>.  The fraction is discarded.  For a value that
  does not fit, the language leaves the result to the implementation; the gc compiler on
  amd64 converts to a 32-bit integer and keeps the low 16 bits, and the 32-bit
  conversion of a value beyond 32 bits is \<^verbatim>\<open>0x80000000\<close>, whose low 16 bits are zero.
\<close>

definition float64_to_int16 :: "real \<Rightarrow> int16" where
  "float64_to_int16 x =
     (let t = truncate_real x
      in if - (2 ^ 31) \<le> t \<and> t < 2 ^ 31 then word_of_int t else 0)"

text \<open>\<^verbatim>\<open>uint32(sampleRate)\<close>, for the rates of the candidate lists (all far below \<open>2 ^ 32\<close>).\<close>

definition float64_to_uint32 :: "real \<Rightarrow> uint32" where
  "float64_to_uint32 x = word_of_int (truncate_real x)"

definition writeSample :: "config \<Rightarrow> os_file \<Rightarrow> int16 \<Rightarrow> go_error + os_file" where
  "writeSample cfg outFile s =
     (let sample = float64_to_int16 (real_of_int (sint s) * volume cfg)
      in binary_Write16 outFile sample)"

subsection \<open>The recording loop (main.go)\<close>

text \<open>\<^verbatim>\<open>buffer[i]\<close>: a read outside the slice panics.\<close>

definition at_index :: "'a list \<Rightarrow> nat \<Rightarrow> go_error + 'a" where
  "at_index xs i = (if i < length xs then Inr (xs ! i) else Inl PanicIndexOutOfRange)"

text \<open>Go's integer division truncates towards zero and panics on a zero divisor.\<close>

definition go_div :: "int \<Rightarrow> int \<Rightarrow> go_error + int" where
  "go_div a b =
     (if b = 0 then Inl PanicDivideByZero else Inr (sgn a * sgn b * (\<bar>a\<bar> div \<bar>b\<bar>)))"

text \<open>
  The inner loop of the default case:
  \<^verbatim>\<open>for ch := 0; ch < channels && i+ch < len(buffer); ch++ { sum += int(buffer[i+ch]) }\<close>
\<close>

function sumChannels :: "config \<Rightarrow> int16 list \<Rightarrow> nat \<Rightarrow> nat \<Rightarrow> int \<Rightarrow> int" where
  "sumChannels cfg buffer i ch chSum =
     (if ch < channels cfg \<and> i + ch < length buffer
      then sumChannels cfg buffer i (ch + 1) (chSum + sint (buffer ! (i + ch)))
      else chSum)"
  by pat_completeness auto
termination
  by (relation "measure (\<lambda>(cfg, buffer, i, ch, chSum). channels cfg - ch)") auto

text \<open>
  One iteration of \<^verbatim>\<open>for i := 0; i < len(buffer); i += channels\<close>: the
  \<^verbatim>\<open>switch channels\<close>.  The state is the output file and \<^verbatim>\<open>totalBytesWritten\<close>.
\<close>

definition frameBody ::
  "config \<Rightarrow> int16 list \<Rightarrow> nat \<Rightarrow> os_file \<times> int \<Rightarrow> go_error + os_file \<times> int" where
  "frameBody cfg buffer i st =
     (case st of (outFile, totalBytesWritten) \<Rightarrow>
        if channels cfg = 1 then
          andThen (at_index buffer i) (\<lambda>val.
          andThen (writeSample cfg outFile val) (\<lambda>outFile.
          Inr (outFile, totalBytesWritten)))
        else if channels cfg = 2 then
          andThen (at_index buffer i) (\<lambda>left.
          andThen (at_index buffer (i + 1)) (\<lambda>right.
          andThen (writeSample cfg outFile left) (\<lambda>outFile.
          andThen (writeSample cfg outFile right) (\<lambda>outFile.
          Inr (outFile, totalBytesWritten + 4)))))
        else
          (let chSum = sumChannels cfg buffer i 0 0 in
           andThen (go_div chSum (int (channels cfg))) (\<lambda>q.
           (let avg = (word_of_int q :: int16) in
            andThen (writeSample cfg outFile avg) (\<lambda>outFile.
            andThen (writeSample cfg outFile avg) (\<lambda>outFile.
            Inr (outFile, totalBytesWritten + 4)))))))"

text \<open>With no channel the default case divides by zero, so an iteration that succeeds
  advances \<open>i\<close>: this is what makes the frame loop terminate.\<close>

lemma frameBody_zero_channels:
  "channels cfg = 0 \<Longrightarrow> frameBody cfg buffer i st = Inl PanicDivideByZero"
  by (cases st) (simp add: frameBody_def go_div_def andThen_def)

lemma frameBody_channels_pos:
  "frameBody cfg buffer i st = Inr st' \<Longrightarrow> 0 < channels cfg"
  using frameBody_zero_channels [of cfg buffer i st] by (cases "channels cfg = 0") simp_all

function frameLoop ::
  "config \<Rightarrow> int16 list \<Rightarrow> nat \<Rightarrow> os_file \<times> int \<Rightarrow> go_error + os_file \<times> int" where
  "frameLoop cfg buffer i st =
     (if i < length buffer
      then (case frameBody cfg buffer i st of
              Inl e \<Rightarrow> Inl e
            | Inr st' \<Rightarrow> frameLoop cfg buffer (i + channels cfg) st')
      else Inr st)"
  by pat_completeness auto
termination
  by (relation "measure (\<lambda>(cfg, buffer, i, st). length buffer - i)")
     (auto dest: frameBody_channels_pos)

text \<open>
  The outer loop.  Its input is what the environment does: the outcomes of the
  \<^verbatim>\<open>stream.Read()\<close> calls made before the stop signal is seen, each the new contents
  of \<^verbatim>\<open>buffer\<close> or a device error (which ends the program through \<^verbatim>\<open>log.Fatal\<close>).
\<close>

fun recordingLoop ::
  "config \<Rightarrow> (go_error + int16 list) list \<Rightarrow> os_file \<times> int \<Rightarrow> go_error + os_file \<times> int" where
  "recordingLoop cfg [] st = Inr st"
| "recordingLoop cfg (r # reads) st =
     (case r of
        Inl e \<Rightarrow> Inl e
      | Inr buffer \<Rightarrow> andThen (frameLoop cfg buffer 0 st) (recordingLoop cfg reads))"

text \<open>
  \<^verbatim>\<open>main\<close> from \<^verbatim>\<open>os.Create\<close> on: placeholder header, recording loop, header update.
  \<open>b\<close> is the budget of the created file.
\<close>

definition recordSession ::
  "config \<Rightarrow> real \<Rightarrow> nat \<Rightarrow> (go_error + int16 list) list \<Rightarrow> go_error + os_file" where
  "recordSession cfg sampleRate b reads =
     andThen (writeWavHeader (os_Create b) (float64_to_uint32 sampleRate)
                (word_of_nat (channels cfg)) (bitsPerSample cfg) 0) (\<lambda>outFile.
     andThen (recordingLoop cfg reads (outFile, 0)) (\<lambda>(outFile, totalBytesWritten).
     updateWavHeader outFile totalBytesWritten))"

subsection \<open>Gain and clamping in the beep variant\<close>

definition int16ToFloat64 :: "int16 \<Rightarrow> real" where
  "int16ToFloat64 s = real_of_int (sint s) / 32767"

text \<open>The body of \<^verbatim>\<open>for _, s := range buffer\<close>: the sample appended for \<open>s\<close>.\<close>

definition gainedSample :: "config \<Rightarrow> int16 \<Rightarrow> real" where
  "gainedSample cfg s =
     (let sample = int16ToFloat64 s * volume cfg
      in if sample > 1 then 1 else if sample < - 1 then - 1 else sample)"

definition appendBlock :: "config \<Rightarrow> real list \<Rightarrow> int16 list \<Rightarrow> real list" where
  "appendBlock cfg samples buffer = samples @ map (gainedSample cfg) buffer"

subsection \<open>\<^verbatim>\<open>multiChannelStreamer\<close> (beep variant)\<close>

text \<open>
  The inner loop of the default case:
  \<^verbatim>\<open>for k := 0; k < ch && i+k < len(samples); k++ { sum += samples[i+k] }\<close>
\<close>

function sumSamples :: "real list \<Rightarrow> nat \<Rightarrow> nat \<Rightarrow> nat \<Rightarrow> real \<Rightarrow> real" where
  "sumSamples samples ch i k chSum =
     (if k < ch \<and> i + k < length samples
      then sumSamples samples ch i (k + 1) (chSum + samples ! (i + k))
      else chSum)"
  by pat_completeness auto
termination
  by (relation "measure (\<lambda>(samples, ch, i, k, chSum). ch - k)") auto

text \<open>
  The \<^verbatim>\<open>switch ch\<close>: the stereo pair stored in \<^verbatim>\<open>buf[j]\<close>.  (For \<open>ch = 0\<close> the
  program divides \<open>0.0\<close> by \<open>0.0\<close>; no statement below is about that case.)
\<close>

definition streamFrame :: "real list \<Rightarrow> nat \<Rightarrow> nat \<Rightarrow> go_error + real \<times> real" where
  "streamFrame samples ch i =
     (if ch = 1 then
        andThen (at_index samples i) (\<lambda>val. Inr (val, val))
      else if ch = 2 then
        andThen (at_index samples i) (\<lambda>l.
        andThen (at_index samples (i + 1)) (\<lambda>r. Inr (l, r)))
      else
        (let chSum = sumSamples samples ch i 0 0;
             avg = chSum / real ch
         in Inr (avg, avg)))"

text \<open>
  One call of the streamer on the caller's buffer \<open>buf\<close>, the loop over \<open>j\<close>.  \<open>i\<close> is
  the variable the closure keeps between calls.  The result is the buffer as filled, the
  returned pair \<open>(n, ok)\<close>, and the new \<open>i\<close>.
\<close>

function streamLoop ::
  "real list \<Rightarrow> nat \<Rightarrow> (real \<times> real) list \<Rightarrow> nat \<Rightarrow> nat
     \<Rightarrow> go_error + (real \<times> real) list \<times> nat \<times> bool \<times> nat" where
  "streamLoop samples ch buf j i =
     (if j < length buf then
        (if i + ch > length samples then Inr (buf, j, False, i)
         else (case streamFrame samples ch i of
                 Inl e \<Rightarrow> Inl e
               | Inr fr \<Rightarrow> streamLoop samples ch (buf[j := fr]) (j + 1) (i + ch)))
      else Inr (buf, length buf, True, i))"
  by pat_completeness auto
termination
  by (relation "measure (\<lambda>(samples, ch, buf, j, i). length buf - j)") auto

definition streamerCall ::
  "real list \<Rightarrow> nat \<Rightarrow> nat \<Rightarrow> (real \<times> real) list
     \<Rightarrow> go_error + (real \<times> real) list \<times> nat \<times> bool \<times> nat" where
  "streamerCall samples ch i buf = streamLoop samples ch buf 0 i"

text \<open>
  The streamer is consumed by calling it again and again, each time on a buffer of the
  caller's choosing.  \<open>streamCalls\<close> threads the closure's \<open>i\<close> through such a sequence of
  calls and collects what the calls emit: the first \<open>n\<close> entries of each buffer.
\<close>

fun streamCalls ::
  "real list \<Rightarrow> nat \<Rightarrow> nat \<Rightarrow> (real \<times> real) list list
     \<Rightarrow> go_error + (real \<times> real) list \<times> nat" where
  "streamCalls samples ch i [] = Inr ([], i)"
| "streamCalls samples ch i (buf # bufs) =
     (case streamerCall samples ch i buf of
        Inl e \<Rightarrow> Inl e
      | Inr (buf', n, ok, i') \<Rightarrow>
          (case streamCalls samples ch i' bufs of
             Inl e \<Rightarrow> Inl e
           | Inr (out, i'') \<Rightarrow> Inr (take n buf' @ out, i'')))"

subsection \<open>Reading a header back\<close>

text \<open>
  The repository only writes headers.  To state what a reader finds in one, the fields
  are read at the offsets of the byte layout the specification tabulates: the canonical
  44-byte header, every number little-endian.
\<close>

fun from_le :: "byte list \<Rightarrow> 'a::len word" where
  "from_le [] = 0"
| "from_le (b # bs) = ucast b OR push_bit 8 (from_le bs)"

definition slice :: "byte list \<Rightarrow> nat \<Rightarrow> nat \<Rightarrow> byte list" where
  "slice bs off n = take n (drop off bs)"

record wav_header =
  ChunkID :: "byte list"
  ChunkSize :: uint32
  Format :: "byte list"
  Subchunk1ID :: "byte list"
  Subchunk1Size :: uint32
  AudioFormat :: uint16
  NumChannels :: uint16
  SampleRateField :: uint32
  ByteRate :: uint32
  BlockAlign :: uint16
  BitsPerSample :: uint16
  Subchunk2ID :: "byte list"
  Subchunk2Size :: uint32

definition decodeWavHeader :: "byte list \<Rightarrow> wav_header option" where
  "decodeWavHeader bs =
     (if length bs < 44 then None
      else Some \<lparr>ChunkID = slice bs 0 4,
                 ChunkSize = from_le (slice bs 4 4),
                 Format = slice bs 8 4,
                 Subchunk1ID = slice bs 12 4,
                 Subchunk1Size = from_le (slice bs 16 4),
                 AudioFormat = from_le (slice bs 20 2),
                 NumChannels = from_le (slice bs 22 2),
                 SampleRateField = from_le (slice bs 24 4),
                 ByteRate = from_le (slice bs 28 4),
                 BlockAlign = from_le (slice bs 32 2),
                 BitsPerSample = from_le (slice bs 34 2),
                 Subchunk2ID = slice bs 36 4,
                 Subchunk2Size = from_le (slice bs 40 4)\<rparr>)"

subsection \<open>Example inputs\<close>

definition example_device :: DeviceInfo where
  "example_device = \<lparr>Name = ''mic'', MaxInputChannels = 2, DefaultLowInputLatency = 0\<rparr>"

text \<open>A device that accepts 48000 Hz and 16000 Hz and nothing else.\<close>

definition example_probe :: "StreamParameters \<Rightarrow> go_error option" where
  "example_probe p =
     (if SampleRate p = 48000 \<or> SampleRate p = 16000 then None else Some ErrInvalid)"

definition example_config :: config where
  "example_config = main_go_config\<lparr>possibleSampleRates := [44100, 48000, 16000]\<rparr>"

section \<open>Rate negotiation\<close>

lemma rateLoop_first:
  "i < length rates \<Longrightarrow> supports isf cfg dev (rates ! i) \<Longrightarrow>
   (\<And>j. j < i \<Longrightarrow> \<not> supports isf cfg dev (rates ! j)) \<Longrightarrow>
   rateLoop isf cfg dev rates = (rates ! i, None)"
proof (induction rates arbitrary: i)
  case Nil
  then show ?case by simp
next
  case (Cons r rs)
  show ?case
  proof (cases i)
    case 0
    with Cons.prems(2) show ?thesis by (simp add: supports_def)
  next
    case (Suc k)
    have r: "\<not> supports isf cfg dev r"
      using Cons.prems(3) [of 0] Suc by simp
    have "rateLoop isf cfg dev rs = (rs ! k, None)"
    proof (rule Cons.IH)
      show "k < length rs" using Cons.prems(1) Suc by simp
      show "supports isf cfg dev (rs ! k)" using Cons.prems(2) Suc by simp
      fix j assume "j < k"
      then show "\<not> supports isf cfg dev (rs ! j)"
        using Cons.prems(3) [of "Suc j"] Suc by simp
    qed
    with r Suc show ?thesis by (auto simp add: supports_def)
  qed
qed

lemma rateLoop_none:
  "(rateLoop isf cfg dev rates = (0, Some ErrInvalid))
     = (\<forall>r\<in>set rates. \<not> supports isf cfg dev r)"
  by (induction rates) (auto simp add: supports_def)

lemma rateLoop_error:
  "snd (rateLoop isf cfg dev rates) = None \<or> rateLoop isf cfg dev rates = (0, Some ErrInvalid)"
  by (induction rates) auto

text \<open>
  Claim C3.  Negotiation returns the earliest-listed candidate the device supports: if
  the candidate at position \<open>i\<close> is supported and no candidate before it is, the result is
  that candidate, with no error.
\<close>

theorem findWorkingSampleRate_earliest_supported:
  assumes "i < length (possibleSampleRates cfg)"
    and "supports isFormatSupported cfg dev (possibleSampleRates cfg ! i)"
    and "\<forall>j<i. \<not> supports isFormatSupported cfg dev (possibleSampleRates cfg ! j)"
  shows "findWorkingSampleRate isFormatSupported cfg dev = (possibleSampleRates cfg ! i, None)"
  unfolding findWorkingSampleRate_def using assms by (intro rateLoop_first) auto

text \<open>
  The specification's example: candidates 44100, 48000, 16000 on a device that supports
  48000 and 16000 only give 48000.
\<close>

theorem findWorkingSampleRate_earliest_supported_witness:
  "findWorkingSampleRate example_probe example_config example_device = (48000, None)"
  using findWorkingSampleRate_earliest_supported [of 1 example_config example_probe example_device]
  by (simp add: example_config_def example_probe_def supports_def probeParams_def)

text \<open>
  Claim C8.  Negotiation returns the error \<^verbatim>\<open>os.ErrInvalid\<close> (with the rate 0) exactly
  when the device supports none of the candidates, and it returns no other error.
\<close>

theorem findWorkingSampleRate_error_iff:
  "(findWorkingSampleRate isFormatSupported cfg dev = (0, Some ErrInvalid))
     = (\<forall>r\<in>set (possibleSampleRates cfg). \<not> supports isFormatSupported cfg dev r)
   \<and> (snd (findWorkingSampleRate isFormatSupported cfg dev) = None
        \<or> findWorkingSampleRate isFormatSupported cfg dev = (0, Some ErrInvalid))"
  unfolding findWorkingSampleRate_def using rateLoop_none rateLoop_error by blast

theorem findWorkingSampleRate_error_iff_witness:
  "findWorkingSampleRate (\<lambda>p. Some ErrInvalid) main_go_config example_device
     = (0, Some ErrInvalid)"
  using findWorkingSampleRate_error_iff [of "\<lambda>p. Some ErrInvalid" main_go_config example_device]
  by (simp add: supports_def)

end
